theory Spec2Isabelle
  imports Main "HOL-Library.Char_ord" "HOL-Library.List_Lexorder"
begin

section \<open>JavaScript helpers\<close>

text \<open>
  The TypeScript sources use a handful of built-ins. They are written out here so that
  every model below can be evaluated.
  \<^item> \<open>truthy\<close>: an optional string field used as a condition is true when it is present
    and not the empty string.
  \<^item> \<open>startsWith\<close>, \<open>includes\<close> (here \<open>includesStr\<close>) and \<open>split\<close> on strings.
  \<^item> A \<open>Set\<close> iterates in insertion order: \<open>setAdd\<close> appends an element unless it is
    already there, \<open>setFrom\<close> builds a set from a list.
  \<^item> \<open>Date.parse\<close> is not part of the repository. Every function that calls it (or
    \<open>new Date(s).getTime()\<close>) takes it as the parameter \<open>parse\<close>; \<open>None\<close> stands for
    \<open>NaN\<close>. The validators call it on a value of any type (it converts its argument
    to a string first), so their parameter takes a value.
\<close>

definition truthy :: "string option \<Rightarrow> bool" where
  "truthy f = (case f of None \<Rightarrow> False | Some s \<Rightarrow> s \<noteq> [])"

definition startsWith :: "string \<Rightarrow> string \<Rightarrow> bool" where
  "startsWith s p = (take (length p) s = p)"

fun includesStr :: "string \<Rightarrow> string \<Rightarrow> bool" where
  "includesStr [] p = (p = [])"
| "includesStr (c # cs) p = (startsWith (c # cs) p \<or> includesStr cs p)"

fun split :: "char \<Rightarrow> string \<Rightarrow> string list" where
  "split sep [] = [[]]"
| "split sep (c # cs) =
     (if c = sep then [] # split sep cs
      else (case split sep cs of [] \<Rightarrow> [[c]] | p # ps \<Rightarrow> (c # p) # ps))"

definition setAdd :: "'a \<Rightarrow> 'a list \<Rightarrow> 'a list" where
  "setAdd x xs = (if x \<in> set xs then xs else xs @ [x])"

definition setFrom :: "'a list \<Rightarrow> 'a list" where
  "setFrom xs = foldl (\<lambda>acc x. setAdd x acc) [] xs"

definition pushIf :: "bool \<Rightarrow> string \<Rightarrow> string list \<Rightarrow> string list" where
  "pushIf c msg xs = (if c then xs @ [msg] else xs)"

section \<open>Record types\<close>

text \<open>
  The interfaces of the reading and discovery modules. The constant field \<open>$type\<close> of the
  typed interfaces is left out (it has one value). Fields that several interfaces share
  by name carry a prefix here.
\<close>

record OperatorRecord =
  operatorDid :: string
  operatorName :: "string option"
  constraints :: "string list option"
  delegatedPermissions :: "string list option"
  effectiveDate :: "string option"
  expirationDate :: "string option"
  supersedes :: "string option"
  createdAt :: string

datatype ClaimCategory = Factual | Subjective | Predictive

datatype Sentiment = Positive | Negative | Neutral

datatype EvidenceType = Post | Interaction | External | Attestation

record TemporalBounds =
  observedAt :: "string option"
  validFrom :: "string option"
  validUntil :: "string option"

record Evidence =
  ev_type :: EvidenceType
  ev_uri :: "string option"
  ev_description :: "string option"

text \<open>
  \<open>x_uri\<close> and \<open>x_witnessDid\<close> are the properties \<open>_uri\<close> and \<open>_witnessDid\<close> that
  \<open>discoverThroughSocialGraph\<close> adds to the objects it returns; they are absent on a
  record as stored.
\<close>

record WitnessAttestation =
  subjectDid :: string
  claim :: string
  claimCategory :: "ClaimCategory option"
  temporalBounds :: "TemporalBounds option"
  sentiment :: "Sentiment option"
  evidence :: "Evidence list option"
  contestsRecord :: "string option"
  att_createdAt :: string
  x_uri :: "string option"
  x_witnessDid :: "string option"

section \<open>Validation\<close>

text \<open>
  The validators take \<open>record: any\<close>: what they are given is a parsed JSON value, or
  \<open>undefined\<close>. A finite number \<open>Finite m e\<close> is \<open>m\<close> times two to the power \<open>e\<close>, so it
  is zero exactly when \<open>m\<close> is; \<open>Infinity\<close> carries its sign. An object lists its
  properties; where a name occurs twice the last one counts, as in \<open>JSON.parse\<close>.
\<close>

datatype JsNumber = Finite int int | NaN | Infinity bool

datatype JsValue =
    JUndefined
  | JNull
  | JBool bool
  | JNum JsNumber
  | JStr string
  | JArr "JsValue list"
  | JObj "(string \<times> JsValue) list"

datatype JsError = TypeError

definition isTruthy :: "JsValue \<Rightarrow> bool" where
  "isTruthy v =
     (case v of
        JUndefined \<Rightarrow> False
      | JNull \<Rightarrow> False
      | JBool b \<Rightarrow> b
      | JNum n \<Rightarrow> (case n of Finite m e \<Rightarrow> m \<noteq> 0 | NaN \<Rightarrow> False | Infinity sign \<Rightarrow> True)
      | JStr s \<Rightarrow> s \<noteq> []
      | JArr xs \<Rightarrow> True
      | JObj fs \<Rightarrow> True)"

definition isFalsy :: "JsValue \<Rightarrow> bool" where
  "isFalsy v = (\<not> isTruthy v)"

text \<open>
  \<open>record.name\<close> for the property names the validators read, on a record that is
  neither \<open>null\<close> nor \<open>undefined\<close>: an object answers with the property or \<open>undefined\<close>,
  a primitive value or an array has none of these properties.
\<close>

definition getProp :: "JsValue \<Rightarrow> string \<Rightarrow> JsValue" where
  "getProp v name =
     (case v of
        JObj fs \<Rightarrow> (case map_of (rev fs) name of None \<Rightarrow> JUndefined | Some x \<Rightarrow> x)
      | _ \<Rightarrow> JUndefined)"

text \<open>
  The condition \<open>x && !x.startsWith('did:')\<close>. Only a string has the method
  \<open>startsWith\<close>; on any other truthy value the call throws a \<open>TypeError\<close>.
\<close>

definition notDid :: "JsValue \<Rightarrow> JsError + bool" where
  "notDid x =
     (if isTruthy x
      then (case x of JStr s \<Rightarrow> Inr (\<not> startsWith s ''did:'') | _ \<Rightarrow> Inl TypeError)
      else Inr False)"

text \<open>\<open>list.includes(x)\<close> for a list of strings.\<close>

definition oneOf :: "string list \<Rightarrow> JsValue \<Rightarrow> bool" where
  "oneOf xs v = (case v of JStr s \<Rightarrow> s \<in> set xs | _ \<Rightarrow> False)"

text \<open>
  \<open>x.length === 0\<close> on a truthy value: strings and arrays have a length, an object may
  have a property of that name, numbers and booleans have none.
\<close>

definition lengthIsZero :: "JsValue \<Rightarrow> bool" where
  "lengthIsZero v =
     (case v of
        JStr s \<Rightarrow> s = []
      | JArr xs \<Rightarrow> xs = []
      | JObj fs \<Rightarrow> (case getProp v ''length'' of
                     JNum n \<Rightarrow> (case n of Finite m e \<Rightarrow> m = 0 | _ \<Rightarrow> False)
                   | _ \<Rightarrow> False)
      | _ \<Rightarrow> False)"

record ValidationResult =
  valid :: bool
  errors :: "string list"
  warnings :: "string list"

text \<open>
  A validator throws in two places: at its first statement, which reads a property of
  \<open>record\<close>, when the record is \<open>null\<close> or \<open>undefined\<close>; and at the call of
  \<open>startsWith\<close>. The errors pushed before a throw are lost with the local array, so the
  model decides the throw first and then collects the messages in the order of the
  source.
\<close>

definition validateOperatorRecord :: "(JsValue \<Rightarrow> int option) \<Rightarrow> JsValue \<Rightarrow> JsError + ValidationResult" where
  "validateOperatorRecord parse record =
     (if record = JUndefined \<or> record = JNull then Inl TypeError
      else (case notDid (getProp record ''operatorDid'') of
              Inl err \<Rightarrow> Inl err
            | Inr badDid \<Rightarrow>
                Inr (let e1 = pushIf (isFalsy (getProp record ''$type'')
                                      \<or> getProp record ''$type'' \<noteq> JStr ''at.witness.operator'')
                                ''Missing or invalid $type (expected at.witness.operator)'' [];
                         e2 = pushIf (isFalsy (getProp record ''operatorDid''))
                                ''Missing required field: operatorDid'' e1;
                         e3 = pushIf (isFalsy (getProp record ''createdAt''))
                                ''Missing required field: createdAt'' e2;
                         e4 = pushIf badDid ''operatorDid must be a valid DID'' e3;
                         e5 = pushIf (isTruthy (getProp record ''createdAt'')
                                      \<and> parse (getProp record ''createdAt'') = None)
                                ''createdAt must be a valid ISO 8601 timestamp'' e4;
                         w1 = pushIf (isFalsy (getProp record ''constraints'')
                                      \<or> lengthIsZero (getProp record ''constraints''))
                                ''No constraints specified - consider documenting agent limitations'' []
                     in \<lparr>valid = (length e5 = 0), errors = e5, warnings = w1\<rparr>)))"

definition validCategories :: "string list" where
  "validCategories = [''factual'', ''subjective'', ''predictive'']"

definition validSentiments :: "string list" where
  "validSentiments = [''positive'', ''negative'', ''neutral'']"

definition validateAttestation :: "JsValue \<Rightarrow> JsError + ValidationResult" where
  "validateAttestation record =
     (if record = JUndefined \<or> record = JNull then Inl TypeError
      else (case notDid (getProp record ''subjectDid'') of
              Inl err \<Rightarrow> Inl err
            | Inr badDid \<Rightarrow>
                Inr (let e1 = pushIf (isFalsy (getProp record ''$type'')
                                      \<or> getProp record ''$type'' \<noteq> JStr ''at.witness.attestation'')
                                ''Missing or invalid $type (expected at.witness.attestation)'' [];
                         e2 = pushIf (isFalsy (getProp record ''subjectDid''))
                                ''Missing required field: subjectDid'' e1;
                         e3 = pushIf (isFalsy (getProp record ''claim''))
                                ''Missing required field: claim'' e2;
                         e4 = pushIf (isFalsy (getProp record ''createdAt''))
                                ''Missing required field: createdAt'' e3;
                         e5 = pushIf badDid ''subjectDid must be a valid DID'' e4;
                         e6 = pushIf (isTruthy (getProp record ''claimCategory'')
                                      \<and> \<not> oneOf validCategories (getProp record ''claimCategory''))
                                ''claimCategory must be one of: factual, subjective, predictive'' e5;
                         e7 = pushIf (isTruthy (getProp record ''sentiment'')
                                      \<and> \<not> oneOf validSentiments (getProp record ''sentiment''))
                                ''sentiment must be one of: positive, negative, neutral'' e6;
                         w1 = pushIf (isFalsy (getProp record ''claimCategory''))
                                ''No claimCategory specified - helps with signal weighting'' [];
                         w2 = pushIf (isFalsy (getProp record ''evidence'')
                                      \<or> lengthIsZero (getProp record ''evidence''))
                                ''No evidence provided - attestation has lower signal value'' w1
                     in \<lparr>valid = (length e7 = 0), errors = e7, warnings = w2\<rparr>)))"

section \<open>Aggregation\<close>

record CategoryCounts =
  factual :: nat
  subjective :: nat
  predictive :: nat
  unknown :: nat

record AttestationSummary =
  sum_subjectDid :: string
  totalAttestations :: nat
  positiveCount :: nat
  negativeCount :: nat
  neutralCount :: nat
  byCategory :: CategoryCounts
  uniqueWitnesses :: nat
  oldestAttestation :: "string option"
  newestAttestation :: "string option"

text \<open>
  \<open>timestamps[0] || null\<close> and \<open>timestamps[timestamps.length - 1] || null\<close>: the empty
  strings were filtered out before, so the only falsy case is the empty array. The
  default \<open>sort()\<close> orders strings by their code units, here the order of \<open>char list\<close>.
\<close>

definition firstOrNull :: "string list \<Rightarrow> string option" where
  "firstOrNull ts = (case ts of [] \<Rightarrow> None | t # _ \<Rightarrow> Some t)"

definition lastOrNull :: "string list \<Rightarrow> string option" where
  "lastOrNull ts = (case ts of [] \<Rightarrow> None | _ # _ \<Rightarrow> Some (last ts))"

definition summarizeAttestations :: "WitnessAttestation list \<Rightarrow> string \<Rightarrow> AttestationSummary" where
  "summarizeAttestations attestations subject =
     (let relevant = filter (\<lambda>a. subjectDid a = subject) attestations;
          witnesses = setFrom (map subjectDid attestations);
          timestamps = sort (filter (\<lambda>t. t \<noteq> []) (map att_createdAt relevant))
      in \<lparr>sum_subjectDid = subject,
          totalAttestations = length relevant,
          positiveCount = length (filter (\<lambda>a. sentiment a = Some Positive) relevant),
          negativeCount = length (filter (\<lambda>a. sentiment a = Some Negative) relevant),
          neutralCount = length (filter (\<lambda>a. sentiment a = Some Neutral) relevant),
          byCategory = \<lparr>factual = length (filter (\<lambda>a. claimCategory a = Some Factual) relevant),
                        subjective = length (filter (\<lambda>a. claimCategory a = Some Subjective) relevant),
                        predictive = length (filter (\<lambda>a. claimCategory a = Some Predictive) relevant),
                        unknown = length (filter (\<lambda>a. claimCategory a = None) relevant)\<rparr>,
          uniqueWitnesses = length witnesses,
          oldestAttestation = firstOrNull timestamps,
          newestAttestation = lastOrNull timestamps\<rparr>)"

text \<open>
  The spec's reading of \<open>uniqueWitnesses\<close>, for comparison with the code: the number of
  distinct witnesses among the attestations about the subject. The witness of an
  attestation is the repository it was read from, which the social discovery records
  in \<open>_witnessDid\<close>.
\<close>

definition distinctWitnesses :: "WitnessAttestation list \<Rightarrow> string \<Rightarrow> nat" where
  "distinctWitnesses attestations subject =
     length (setFrom (map x_witnessDid (filter (\<lambda>a. subjectDid a = subject) attestations)))"

section \<open>Reading operator records\<close>

text \<open>
  \<open>agent.com.atproto.repo.listRecords\<close> is the boundary to the network. A call either
  throws an error object (with an optional \<open>status\<close> and an optional \<open>message\<close>) or
  returns the listed records, each an envelope of the record's URI, its CID and its
  value. An agent is modelled by what it answers for a repository, the same answer
  whenever it is asked within one invocation; there is one such function per
  collection, since the collections hold values of different types.
\<close>

record 'v Envelope =
  env_uri :: string
  env_cid :: string
  env_value :: 'v

datatype XrpcError = XrpcError (err_status: "nat option") (err_message: "string option")

type_synonym 'v Listing = "XrpcError + 'v Envelope list"

definition getOperatorRecords :: "(string \<Rightarrow> OperatorRecord Listing) \<Rightarrow> string \<Rightarrow> XrpcError + OperatorRecord list" where
  "getOperatorRecords agent agentDid =
     (case agent agentDid of
        Inr records \<Rightarrow> Inr (map env_value records)
      | Inl error \<Rightarrow>
          if err_status error = Some 404
             \<or> (case err_message error of None \<Rightarrow> False | Some m \<Rightarrow> includesStr m ''not found'')
          then Inr []
          else Inl error)"

text \<open>
  The loop that fills the map \<open>supersededBy\<close>: a record with a truthy \<open>supersedes\<close> maps
  that string to the record's \<open>createdAt\<close>.
\<close>

definition supersededBy :: "OperatorRecord list \<Rightarrow> (string \<rightharpoonup> string)" where
  "supersededBy records =
     foldl (\<lambda>m record. case supersedes record of
                          None \<Rightarrow> m
                        | Some s \<Rightarrow> if s \<noteq> [] then m(s \<mapsto> createdAt record) else m)
           Map.empty records"

text \<open>
  The comparator of the sort, \<open>new Date(b.createdAt).getTime() - new Date(a.createdAt).getTime()\<close>;
  \<open>None\<close> is \<open>NaN\<close>.
\<close>

definition newestFirst :: "(string \<Rightarrow> int option) \<Rightarrow> OperatorRecord \<Rightarrow> OperatorRecord \<Rightarrow> int option" where
  "newestFirst parse a b =
     (case parse (createdAt b) of
        None \<Rightarrow> None
      | Some tb \<Rightarrow> (case parse (createdAt a) of None \<Rightarrow> None | Some ta \<Rightarrow> Some (tb - ta)))"

text \<open>
  \<open>Array.prototype.sort\<close> with a comparator is a stable sort; a comparator result of
  \<open>NaN\<close> counts as \<open>0\<close>. It is modelled as a stable insertion sort: \<open>x\<close>, which stood
  before every element of \<open>ys\<close>, stays before \<open>y\<close> unless the comparator is positive.
  (Where unparseable dates make the comparator inconsistent, ECMAScript leaves the order
  to the implementation; the result is a permutation of the input in any case.)
\<close>

fun insertBy :: "('a \<Rightarrow> 'a \<Rightarrow> int option) \<Rightarrow> 'a \<Rightarrow> 'a list \<Rightarrow> 'a list" where
  "insertBy cmp x [] = [x]"
| "insertBy cmp x (y # ys) =
     (if (case cmp x y of None \<Rightarrow> True | Some v \<Rightarrow> v \<le> 0) then x # y # ys
      else y # insertBy cmp x ys)"

definition sortBy :: "('a \<Rightarrow> 'a \<Rightarrow> int option) \<Rightarrow> 'a list \<Rightarrow> 'a list" where
  "sortBy cmp xs = foldr (insertBy cmp) xs []"

text \<open>
  The body of \<open>getCurrentOperator\<close> after the records were fetched. The filter keeps the
  records whose \<open>createdAt\<close> is not a key of \<open>supersededBy\<close>.
\<close>

definition unsuperseded :: "(string \<Rightarrow> int option) \<Rightarrow> OperatorRecord list \<Rightarrow> OperatorRecord list" where
  "unsuperseded parse records =
     sortBy (newestFirst parse) (filter (\<lambda>r. supersededBy records (createdAt r) = None) records)"

definition resolveCurrentOperator :: "(string \<Rightarrow> int option) \<Rightarrow> OperatorRecord list \<Rightarrow> OperatorRecord option" where
  "resolveCurrentOperator parse records =
     (if length records = 0 then None
      else (case unsuperseded parse records of
              r # _ \<Rightarrow> Some r
            | [] \<Rightarrow> (case records of [] \<Rightarrow> None | r # _ \<Rightarrow> Some r)))"

definition getCurrentOperator ::
  "(string \<Rightarrow> int option) \<Rightarrow> (string \<Rightarrow> OperatorRecord Listing) \<Rightarrow> string \<Rightarrow> XrpcError + OperatorRecord option" where
  "getCurrentOperator parse agent agentDid =
     (case getOperatorRecords agent agentDid of
        Inl error \<Rightarrow> Inl error
      | Inr records \<Rightarrow> Inr (resolveCurrentOperator parse records))"

text \<open>
  The resolver as the specification words it, for comparison with the code. The
  reference of a record is the URI of its envelope (\<open>supersedes\<close> holds such a URI); the
  superseded set collects every \<open>supersedes\<close> target, and the candidate tips are the
  records whose own reference is not in it.
\<close>

definition supersededSet :: "OperatorRecord Envelope list \<Rightarrow> string set" where
  "supersededSet listed = set (List.map_filter (\<lambda>e. supersedes (env_value e)) listed)"

definition candidateTips :: "OperatorRecord Envelope list \<Rightarrow> OperatorRecord Envelope list" where
  "candidateTips listed = filter (\<lambda>e. env_uri e \<notin> supersededSet listed) listed"

text \<open>
  \<open>Date.parse\<close> on the timestamps of the worked examples below, in milliseconds since
  the epoch; it stands for \<open>Date.parse\<close> on these strings only.
\<close>

definition exampleDateParse :: "string \<Rightarrow> int option" where
  "exampleDateParse s =
     (if s = ''2026-01-01T00:00:00Z'' then Some 1767225600000
      else if s = ''2026-02-01T00:00:00Z'' then Some 1769904000000
      else if s = ''2026-01-10T10:00:00Z'' then Some 1768039200000
      else None)"

section \<open>Discovery\<close>

text \<open>
  Of a post only \<open>reply?.parent?.uri\<close> is read, of a registry record only \<open>witnesses\<close>.
  The agent of the discovery module answers for three collections.
\<close>

record PostValue =
  reply_parent_uri :: "string option"

record RegistryValue =
  witnesses :: "string list option"

record Agent =
  listAttestations :: "string \<Rightarrow> WitnessAttestation Listing"
  listPosts :: "string \<Rightarrow> PostValue Listing"
  listRegistry :: "string \<Rightarrow> RegistryValue Listing"

definition tagged :: "string \<Rightarrow> WitnessAttestation Envelope \<Rightarrow> WitnessAttestation" where
  "tagged witnessDid r = (env_value r)\<lparr>x_uri := Some (env_uri r), x_witnessDid := Some witnessDid\<rparr>"

text \<open>
  The \<open>catch\<close> of \<open>discoverThroughSocialGraph\<close> writes a line to the console and goes on
  with the next witness; console output is not part of the model.
\<close>

fun discoverThroughSocialGraph :: "Agent \<Rightarrow> string \<Rightarrow> string list \<Rightarrow> WitnessAttestation list" where
  "discoverThroughSocialGraph agent targetAgentDid [] = []"
| "discoverThroughSocialGraph agent targetAgentDid (witnessDid # rest) =
     (case listAttestations agent witnessDid of
        Inl error \<Rightarrow> []
      | Inr records \<Rightarrow> filter (\<lambda>a. subjectDid a = targetAgentDid) (map (tagged witnessDid) records))
     @ discoverThroughSocialGraph agent targetAgentDid rest"

text \<open>
  The loop over the posts of \<open>findPotentialWitnesses\<close>. \<open>uri.split('/')[2]\<close> is undefined
  when the URI has fewer than three parts; \<open>startsWith\<close> then throws, the \<open>catch\<close> ends
  the loop, and the witnesses found so far are returned.
\<close>

fun scanPosts :: "PostValue list \<Rightarrow> string list \<Rightarrow> string list" where
  "scanPosts [] found = found"
| "scanPosts (p # ps) found =
     (case reply_parent_uri p of
        None \<Rightarrow> scanPosts ps found
      | Some u \<Rightarrow>
          if u = [] then scanPosts ps found
          else (case drop 2 (split CHR ''/'' u) of
                  [] \<Rightarrow> found
                | parentDid # _ \<Rightarrow>
                    if startsWith parentDid ''did:'' then scanPosts ps (setAdd parentDid found)
                    else scanPosts ps found))"

definition findPotentialWitnesses :: "Agent \<Rightarrow> string \<Rightarrow> string list" where
  "findPotentialWitnesses agent targetAgentDid =
     (case listPosts agent targetAgentDid of
        Inl error \<Rightarrow> []
      | Inr posts \<Rightarrow> scanPosts (map env_value posts) [])"

definition registeredWitnesses :: "RegistryValue Envelope list \<Rightarrow> string list" where
  "registeredWitnesses registryRecords =
     foldl (\<lambda>found record. case witnesses (env_value record) of
                              None \<Rightarrow> found
                            | Some ws \<Rightarrow> foldl (\<lambda>acc w. setAdd w acc) found ws)
           [] registryRecords"

fun checkRegistered :: "Agent \<Rightarrow> string \<Rightarrow> string list \<Rightarrow> WitnessAttestation list" where
  "checkRegistered agent targetAgentDid [] = []"
| "checkRegistered agent targetAgentDid (witnessDid # rest) =
     (case listAttestations agent witnessDid of
        Inl error \<Rightarrow> []
      | Inr records \<Rightarrow> filter (\<lambda>a. subjectDid a = targetAgentDid) (map env_value records))
     @ checkRegistered agent targetAgentDid rest"

definition discoverThroughRegistry :: "Agent \<Rightarrow> string \<Rightarrow> string \<Rightarrow> WitnessAttestation list" where
  "discoverThroughRegistry agent registryDid targetAgentDid =
     (case listRegistry agent registryDid of
        Inl error \<Rightarrow> []
      | Inr registryRecords \<Rightarrow> checkRegistered agent targetAgentDid (registeredWitnesses registryRecords))"

subsection \<open>Indexer\<close>

text \<open>
  The request to an indexer is kept as its base URL and its query parameters rather
  than as the URL string. \<open>fetch\<close> answers \<open>None\<close> when it rejects; the body of a
  response is \<open>None\<close> when \<open>response.json()\<close> rejects.
\<close>

record WitnessIndexer =
  baseUrl :: string

record IndexedAttestation =
  ix_uri :: string
  ix_witnessDid :: string
  ix_subjectDid :: string
  ix_claim :: string
  ix_sentiment :: "string option"
  ix_createdAt :: string

record IndexerResponse =
  ix_attestations :: "IndexedAttestation list"
  ix_cursor :: "string option"

record IndexerOptions =
  o_limit :: "nat option"
  o_cursor :: "string option"
  o_sentiment :: "Sentiment option"

record IndexerQuery =
  q_subject :: string
  q_limit :: nat
  q_cursor :: "string option"
  q_sentiment :: "Sentiment option"

record HttpResponse =
  ok :: bool
  http_status :: nat
  json :: "IndexerResponse option"

datatype IndexerError = FetchRejected | IndexerStatus nat | JsonRejected

type_synonym Fetch = "string \<Rightarrow> IndexerQuery \<Rightarrow> HttpResponse option"

definition discoverThroughIndexer ::
  "Fetch \<Rightarrow> WitnessIndexer \<Rightarrow> string \<Rightarrow> IndexerOptions option \<Rightarrow> IndexerError + IndexerResponse" where
  "discoverThroughIndexer fetch indexer targetAgentDid options =
     (let limit = (case options of
                     None \<Rightarrow> 50
                   | Some opts \<Rightarrow> (case o_limit opts of None \<Rightarrow> 50 | Some n \<Rightarrow> if n = 0 then 50 else n));
          cursor = (case options of
                      None \<Rightarrow> None
                    | Some opts \<Rightarrow> if truthy (o_cursor opts) then o_cursor opts else None);
          sentiment = (case options of None \<Rightarrow> None | Some opts \<Rightarrow> o_sentiment opts)
      in case fetch (baseUrl indexer)
                \<lparr>q_subject = targetAgentDid, q_limit = limit, q_cursor = cursor, q_sentiment = sentiment\<rparr> of
           None \<Rightarrow> Inl FetchRejected
         | Some response \<Rightarrow>
             if \<not> ok response then Inl (IndexerStatus (http_status response))
             else (case json response of None \<Rightarrow> Inl JsonRejected | Some body \<Rightarrow> Inr body))"

subsection \<open>Unified discovery\<close>

record DiscoveryOptions =
  knownWitnesses :: "string list option"
  discoverWitnessesSocially :: bool
  registries :: "string list option"
  indexers :: "WitnessIndexer list option"
  deduplicate :: bool

record Sources =
  social :: nat
  registry :: nat
  indexer :: nat

record DiscoveryResult =
  attestations :: "WitnessAttestation list"
  sources :: Sources
  discoveryWarnings :: "string list"

text \<open>
  The four variables that \<open>discoverAttestations\<close> declares first and updates in place:
  \<open>attestations\<close>, \<open>sources\<close>, \<open>warnings\<close> and \<open>seenUris\<close>.
\<close>

record DiscoveryState =
  st_attestations :: "WitnessAttestation list"
  st_sources :: Sources
  st_warnings :: "string list"
  seenUris :: "string set"

datatype SourceKey = Social | Registry | Indexer

fun increment :: "SourceKey \<Rightarrow> Sources \<Rightarrow> Sources" where
  "increment Social s = s\<lparr>social := social s + 1\<rparr>"
| "increment Registry s = s\<lparr>registry := registry s + 1\<rparr>"
| "increment Indexer s = s\<lparr>indexer := indexer s + 1\<rparr>"

definition dedupKey :: "WitnessAttestation \<Rightarrow> string" where
  "dedupKey a = subjectDid a @ '':'' @ claim a @ '':'' @ att_createdAt a"

fun addAttestations :: "bool \<Rightarrow> WitnessAttestation list \<Rightarrow> SourceKey \<Rightarrow> DiscoveryState \<Rightarrow> DiscoveryState" where
  "addAttestations dedup [] source st = st"
| "addAttestations dedup (a # rest) source st =
     (if \<not> dedup \<or> dedupKey a \<notin> seenUris st
      then addAttestations dedup rest source
             (st\<lparr>seenUris := insert (dedupKey a) (seenUris st),
                 st_attestations := st_attestations st @ [a],
                 st_sources := increment source (st_sources st)\<rparr>)
      else addAttestations dedup rest source st)"

definition registryStep :: "Agent \<Rightarrow> string \<Rightarrow> bool \<Rightarrow> DiscoveryState \<Rightarrow> string \<Rightarrow> DiscoveryState" where
  "registryStep agent targetAgentDid dedup st registryDid =
     addAttestations dedup (discoverThroughRegistry agent registryDid targetAgentDid) Registry st"

definition indexerStep :: "Fetch \<Rightarrow> string \<Rightarrow> DiscoveryState \<Rightarrow> WitnessIndexer \<Rightarrow> DiscoveryState" where
  "indexerStep fetch targetAgentDid st ix =
     (case discoverThroughIndexer fetch ix targetAgentDid None of
        Inr response \<Rightarrow>
          st\<lparr>st_sources := (st_sources st)\<lparr>indexer := indexer (st_sources st) + length (ix_attestations response)\<rparr>\<rparr>
      | Inl error \<Rightarrow>
          st\<lparr>st_warnings := st_warnings st @ [''Indexer '' @ baseUrl ix @ '' unavailable'']\<rparr>)"

text \<open>
  \<open>findPotentialWitnesses\<close> and \<open>discoverThroughRegistry\<close> catch every error themselves
  and always return a list, so the \<open>catch\<close> clauses around their calls here never run
  and have no branch in the model. An absent option list is the empty list
  (\<open>|| []\<close>), an absent flag is false.
\<close>

definition orEmpty :: "'a list option \<Rightarrow> 'a list" where
  "orEmpty xs = (case xs of None \<Rightarrow> [] | Some l \<Rightarrow> l)"

definition discoverAttestations :: "Agent \<Rightarrow> Fetch \<Rightarrow> string \<Rightarrow> DiscoveryOptions \<Rightarrow> DiscoveryResult" where
  "discoverAttestations agent fetch targetAgentDid options =
     (let st0 = \<lparr>st_attestations = [], st_sources = \<lparr>social = 0, registry = 0, indexer = 0\<rparr>,
                 st_warnings = [], seenUris = {}\<rparr>;
          known = orEmpty (knownWitnesses options);
          ws = (if discoverWitnessesSocially options
                then setFrom (known @ findPotentialWitnesses agent targetAgentDid)
                else known);
          st1 = (if length ws > 0
                 then addAttestations (deduplicate options)
                        (discoverThroughSocialGraph agent targetAgentDid ws) Social st0
                 else st0);
          st2 = foldl (registryStep agent targetAgentDid (deduplicate options)) st1
                  (orEmpty (registries options));
          st3 = foldl (indexerStep fetch targetAgentDid) st2 (orEmpty (indexers options))
      in \<lparr>attestations = st_attestations st3, sources = st_sources st3,
          discoveryWarnings = st_warnings st3\<rparr>)"

section \<open>Predicates used in the statements\<close>



text \<open>
  \<open>notAfter parse q r\<close>: both creation dates parse and the one of \<open>q\<close> is not later than
  the one of \<open>r\<close>.
\<close>

definition notAfter :: "(string \<Rightarrow> int option) \<Rightarrow> OperatorRecord \<Rightarrow> OperatorRecord \<Rightarrow> bool" where
  "notAfter parse q r =
     (case parse (createdAt q) of
        None \<Rightarrow> False
      | Some tq \<Rightarrow> (case parse (createdAt r) of None \<Rightarrow> False | Some tr \<Rightarrow> tq \<le> tr))"

text \<open>
  Two invariants of the state of \<open>discoverAttestations\<close>: the list is as long as the
  social and registry counters say, and (under deduplication) the keys of the list are
  distinct and are the elements of \<open>seenUris\<close>.
\<close>

definition counted :: "DiscoveryState \<Rightarrow> bool" where
  "counted st = (length (st_attestations st) = social (st_sources st) + registry (st_sources st))"


section \<open>Worked examples\<close>

subsection \<open>Raw attestations\<close>




definition attBadDate :: JsValue where
  "attBadDate =
     JObj [(''$type'', JStr ''at.witness.attestation''),
           (''subjectDid'', JStr ''did:plc:example-agent''),
           (''claim'', JStr ''Answered accurately''),
           (''claimCategory'', JStr ''factual''),
           (''sentiment'', JStr ''positive''),
           (''createdAt'', JStr ''not-a-timestamp'')]"


subsection \<open>Operator records\<close>

text \<open>
  A repository with two operator records: the second supersedes the first by its URI,
  but carries the earlier creation date.
\<close>

definition opFirst :: OperatorRecord where
  "opFirst =
     \<lparr>operatorDid = ''did:plc:original-operator'', operatorName = Some ''Original Company'',
      constraints = Some [''General assistance''], delegatedPermissions = None,
      effectiveDate = None, expirationDate = None, supersedes = None,
      createdAt = ''2026-02-01T00:00:00Z''\<rparr>"

definition opSecond :: OperatorRecord where
  "opSecond = opFirst\<lparr>operatorName := Some ''New Company'',
     supersedes := Some ''at://did:plc:agent/at.witness.operator/first'',
     createdAt := ''2026-01-01T00:00:00Z''\<rparr>"

definition envFirst :: "OperatorRecord Envelope" where
  "envFirst = \<lparr>env_uri = ''at://did:plc:agent/at.witness.operator/first'', env_cid = ''cid-first'',
               env_value = opFirst\<rparr>"

definition envSecond :: "OperatorRecord Envelope" where
  "envSecond = \<lparr>env_uri = ''at://did:plc:agent/at.witness.operator/second'', env_cid = ''cid-second'',
                env_value = opSecond\<rparr>"

definition backdatedAgent :: "string \<Rightarrow> OperatorRecord Listing" where
  "backdatedAgent repo = Inr [envFirst, envSecond]"

text \<open>Two records that supersede each other by URI.\<close>

definition uriCycleOld :: OperatorRecord where
  "uriCycleOld = opFirst\<lparr>supersedes := Some ''at://did:plc:agent/at.witness.operator/second'',
     createdAt := ''2026-01-01T00:00:00Z''\<rparr>"

definition uriCycleNew :: OperatorRecord where
  "uriCycleNew = opFirst\<lparr>supersedes := Some ''at://did:plc:agent/at.witness.operator/first''\<rparr>"

definition uriCycle :: "OperatorRecord list" where
  "uriCycle = [uriCycleOld, uriCycleNew]"

definition uriCycleListing :: "OperatorRecord Envelope list" where
  "uriCycleListing =
     [\<lparr>env_uri = ''at://did:plc:agent/at.witness.operator/first'', env_cid = ''cid-first'',
       env_value = uriCycleOld\<rparr>,
      \<lparr>env_uri = ''at://did:plc:agent/at.witness.operator/second'', env_cid = ''cid-second'',
       env_value = uriCycleNew\<rparr>]"

definition uriCycleAgent :: "string \<Rightarrow> OperatorRecord Listing" where
  "uriCycleAgent repo = Inr uriCycleListing"

text \<open>
  The same second record in a chain that resolves: the first record supersedes
  nothing, so the second is the one candidate tip.
\<close>

definition chainTip :: "OperatorRecord Envelope" where
  "chainTip = \<lparr>env_uri = ''at://did:plc:agent/at.witness.operator/second'', env_cid = ''cid-second'',
               env_value = uriCycleNew\<rparr>"

definition chainListing :: "OperatorRecord Envelope list" where
  "chainListing =
     [\<lparr>env_uri = ''at://did:plc:agent/at.witness.operator/first'', env_cid = ''cid-first'',
       env_value = uriCycleOld\<lparr>supersedes := None\<rparr>\<rparr>,
      chainTip]"

definition chainAgent :: "string \<Rightarrow> OperatorRecord Listing" where
  "chainAgent repo = Inr chainListing"

subsection \<open>Discovery\<close>

text \<open>
  The scenario of the specification: subject \<open>did:plc:subject\<close>, the repository of
  \<open>did:plc:witness-1\<close> holds one positive attestation about the subject, created at
  \<open>2026-01-10T10:00:00Z\<close>, and every other repository, \<open>did:plc:witness-2\<close> among
  them, is unreachable.
\<close>

definition praise :: WitnessAttestation where
  "praise =
     \<lparr>subjectDid = ''did:plc:subject'', claim = ''Resolved a billing issue quickly'',
      claimCategory = Some Subjective, temporalBounds = None, sentiment = Some Positive,
      evidence = None, contestsRecord = None, att_createdAt = ''2026-01-10T10:00:00Z'',
      x_uri = None, x_witnessDid = None\<rparr>"

definition praiseEnvelope :: "WitnessAttestation Envelope" where
  "praiseEnvelope =
     \<lparr>env_uri = ''at://did:plc:witness-1/at.witness.attestation/1'', env_cid = ''cid-1'',
      env_value = praise\<rparr>"

definition scenarioAttestations :: "string \<Rightarrow> WitnessAttestation Listing" where
  "scenarioAttestations repo =
     (if repo = ''did:plc:witness-1'' then Inr [praiseEnvelope]
      else Inl (XrpcError None (Some ''fetch failed'')))"

definition noPosts :: "string \<Rightarrow> PostValue Listing" where
  "noPosts repo = Inr []"

definition noRegistry :: "string \<Rightarrow> RegistryValue Listing" where
  "noRegistry repo = Inr []"

definition scenarioAgent :: Agent where
  "scenarioAgent =
     \<lparr>listAttestations = scenarioAttestations, listPosts = noPosts, listRegistry = noRegistry\<rparr>"



text \<open>An indexer that reports the same record, and two ways of asking it.\<close>

definition indexedPraise :: IndexedAttestation where
  "indexedPraise =
     \<lparr>ix_uri = ''at://did:plc:witness-1/at.witness.attestation/1'',
      ix_witnessDid = ''did:plc:witness-1'', ix_subjectDid = ''did:plc:subject'',
      ix_claim = ''Resolved a billing issue quickly'', ix_sentiment = Some ''positive'',
      ix_createdAt = ''2026-01-10T10:00:00Z''\<rparr>"

definition indexFetch :: Fetch where
  "indexFetch url query =
     (if url = ''https://witness-index.example.com'' \<and> q_subject query = ''did:plc:subject''
      then Some \<lparr>ok = True, http_status = 200,
                 json = Some \<lparr>ix_attestations = [indexedPraise], ix_cursor = None\<rparr>\<rparr>
      else None)"

definition exampleIndexer :: WitnessIndexer where
  "exampleIndexer = \<lparr>baseUrl = ''https://witness-index.example.com''\<rparr>"

definition socialAndIndexer :: DiscoveryOptions where
  "socialAndIndexer =
     \<lparr>knownWitnesses = Some [''did:plc:witness-1''], discoverWitnessesSocially = False,
      registries = None, indexers = Some [exampleIndexer], deduplicate = True\<rparr>"

definition indexerOnly :: DiscoveryOptions where
  "indexerOnly =
     \<lparr>knownWitnesses = None, discoverWitnessesSocially = False,
      registries = None, indexers = Some [exampleIndexer], deduplicate = True\<rparr>"

text \<open>Two attestations about the subject as the social discovery returns them.\<close>

definition byAlice :: WitnessAttestation where
  "byAlice = praise\<lparr>x_uri := Some ''at://did:plc:alice/at.witness.attestation/positive1'',
                    x_witnessDid := Some ''did:plc:alice''\<rparr>"

definition byBob :: WitnessAttestation where
  "byBob = praise\<lparr>claim := ''Gave incorrect information'', sentiment := Some Negative,
                  x_uri := Some ''at://did:plc:bob/at.witness.attestation/negative1'',
                  x_witnessDid := Some ''did:plc:bob''\<rparr>"

section \<open>Validation: properties\<close>


lemma pushIf_True: "c \<Longrightarrow> pushIf c msg xs \<noteq> [] \<and> msg \<in> set (pushIf c msg xs)"
  by (simp add: pushIf_def)











text \<open>
  The operator validator rejects a creation date that is truthy and does not parse.
\<close>

lemma operator_timestamp_checked:
  assumes "r \<noteq> JUndefined" and "r \<noteq> JNull"
    and "notDid (getProp r ''operatorDid'') = Inr b"
    and "isTruthy (getProp r ''createdAt'')" and "parse (getProp r ''createdAt'') = None"
  shows "\<exists>res. validateOperatorRecord parse r = Inr res \<and> \<not> valid res
           \<and> ''createdAt must be a valid ISO 8601 timestamp'' \<in> set (errors res)"
  using assms by (simp add: validateOperatorRecord_def Let_def pushIf_True)

text \<open>
  C6. A record of either kind whose \<open>createdAt\<close> is present but does not parse is to be
  rejected. \<open>validateAttestation\<close> has no check of the timestamp: the attestation
  \<open>attBadDate\<close>, whose \<open>createdAt\<close> is \<open>not-a-timestamp\<close>, is returned as valid with no
  error.
\<close>

theorem attestation_timestamp_unchecked:
  "getProp attBadDate ''createdAt'' = JStr ''not-a-timestamp''
   \<and> exampleDateParse ''not-a-timestamp'' = None
   \<and> validateAttestation attBadDate =
       Inr \<lparr>valid = True, errors = [],
            warnings = [''No evidence provided - attestation has lower signal value'']\<rparr>"
  by (simp add: attBadDate_def validateAttestation_def Let_def pushIf_def getProp_def notDid_def
      isTruthy_def isFalsy_def startsWith_def oneOf_def lengthIsZero_def validCategories_def
      validSentiments_def exampleDateParse_def)

section \<open>Aggregation: properties\<close>

lemma sentiment_counts:
  "length (filter (\<lambda>a. sentiment a = Some Positive) xs)
   + length (filter (\<lambda>a. sentiment a = Some Negative) xs)
   + length (filter (\<lambda>a. sentiment a = Some Neutral) xs) \<le> length xs"
  by (induction xs) auto

lemma category_counts:
  "length (filter (\<lambda>a. claimCategory a = Some Factual) xs)
   + length (filter (\<lambda>a. claimCategory a = Some Subjective) xs)
   + length (filter (\<lambda>a. claimCategory a = Some Predictive) xs)
   + length (filter (\<lambda>a. claimCategory a = None) xs) = length xs"
proof (induction xs)
  case Nil
  then show ?case by simp
next
  case (Cons a xs)
  show ?case
  proof (cases "claimCategory a")
    case None
    with Cons show ?thesis by simp
  next
    case (Some c)
    with Cons show ?thesis by (cases c) simp_all
  qed
qed

text \<open>
  C8. For every attestation list and subject, the summary satisfies
  \<open>positiveCount + negativeCount + neutralCount \<le> totalAttestations\<close>, and the four
  counts of \<open>byCategory\<close> add up to \<open>totalAttestations\<close>.
\<close>

theorem summary_totals:
  "positiveCount (summarizeAttestations atts subject)
     + negativeCount (summarizeAttestations atts subject)
     + neutralCount (summarizeAttestations atts subject)
     \<le> totalAttestations (summarizeAttestations atts subject)
   \<and> factual (byCategory (summarizeAttestations atts subject))
     + subjective (byCategory (summarizeAttestations atts subject))
     + predictive (byCategory (summarizeAttestations atts subject))
     + unknown (byCategory (summarizeAttestations atts subject))
     = totalAttestations (summarizeAttestations atts subject)"
  by (simp add: summarizeAttestations_def Let_def sentiment_counts category_counts del: filter_filter)

text \<open>
  C9. \<open>uniqueWitnesses\<close> is to be the number of distinct witnesses with an attestation
  about the subject in the set. The code counts the distinct \<open>subjectDid\<close> values of
  the whole input instead: two attestations about one subject by two witnesses give
  \<open>uniqueWitnesses = 1\<close>.
\<close>

theorem witnesses_miscounted:
  "uniqueWitnesses (summarizeAttestations [byAlice, byBob] ''did:plc:subject'') = 1
   \<and> distinctWitnesses [byAlice, byBob] ''did:plc:subject'' = 2"
  by (simp add: summarizeAttestations_def distinctWitnesses_def Let_def setFrom_def setAdd_def
      byAlice_def byBob_def praise_def)

section \<open>Supersession: properties\<close>

lemma insertBy_set: "set (insertBy cmp x ys) = insert x (set ys)"
  by (induction ys) auto

lemma sortBy_set: "set (sortBy cmp xs) = set xs"
  by (induction xs) (simp_all add: sortBy_def insertBy_set)

lemma unsuperseded_subset: "set (unsuperseded parse records) \<subseteq> set records"
  by (auto simp: unsuperseded_def sortBy_set)

lemma notAfter_trans: "notAfter parse a b \<Longrightarrow> notAfter parse b c \<Longrightarrow> notAfter parse a c"
  by (auto simp: notAfter_def split: option.splits)

lemma notAfter_refl: "parse (createdAt a) \<noteq> None \<Longrightarrow> notAfter parse a a"
  by (auto simp: notAfter_def)

lemma insertBy_sorted:
  assumes "\<forall>a\<in>set (x # ys). parse (createdAt a) \<noteq> None"
    and "sorted_wrt (\<lambda>a b. notAfter parse b a) ys"
  shows "sorted_wrt (\<lambda>a b. notAfter parse b a) (insertBy (newestFirst parse) x ys)"
  using assms
proof (induction ys)
  case Nil
  then show ?case by simp
next
  case (Cons y ys)
  show ?case
  proof (cases "case newestFirst parse x y of None \<Rightarrow> True | Some v \<Rightarrow> v \<le> 0")
    case True
    with Cons.prems have xy: "notAfter parse y x"
      by (auto simp: newestFirst_def notAfter_def split: option.splits)
    have "\<forall>b\<in>set ys. notAfter parse b y" using Cons.prems by simp
    then have "\<forall>b\<in>set ys. notAfter parse b x" using xy notAfter_trans by blast
    with True xy Cons.prems show ?thesis by simp
  next
    case False
    with Cons.prems have yx: "notAfter parse x y"
      by (auto simp: newestFirst_def notAfter_def split: option.splits)
    have "sorted_wrt (\<lambda>a b. notAfter parse b a) (insertBy (newestFirst parse) x ys)"
      using Cons by simp
    with False yx Cons.prems show ?thesis by (auto simp: insertBy_set)
  qed
qed

lemma sortBy_sorted:
  "\<forall>a\<in>set xs. parse (createdAt a) \<noteq> None \<Longrightarrow>
   sorted_wrt (\<lambda>a b. notAfter parse b a) (sortBy (newestFirst parse) xs)"
proof (induction xs)
  case Nil
  then show ?case by (simp add: sortBy_def)
next
  case (Cons x xs)
  then have "sorted_wrt (\<lambda>a b. notAfter parse b a) (sortBy (newestFirst parse) xs)" by simp
  moreover have "\<forall>a\<in>set (x # sortBy (newestFirst parse) xs). parse (createdAt a) \<noteq> None"
    using Cons.prems by (simp add: sortBy_set)
  ultimately have "sorted_wrt (\<lambda>a b. notAfter parse b a)
      (insertBy (newestFirst parse) x (sortBy (newestFirst parse) xs))"
    by (intro insertBy_sorted)
  then show ?case by (simp add: sortBy_def)
qed

lemma sorted_head_latest:
  assumes "sortBy (newestFirst parse) xs = r # rest"
    and "\<forall>a\<in>set xs. parse (createdAt a) \<noteq> None"
  shows "\<forall>q\<in>set xs. notAfter parse q r"
proof -
  have s: "sorted_wrt (\<lambda>a b. notAfter parse b a) (r # rest)"
    using sortBy_sorted[OF assms(2)] assms(1) by simp
  have m: "set xs = insert r (set rest)"
    using sortBy_set[of "newestFirst parse" xs] assms(1) by simp
  then have "parse (createdAt r) \<noteq> None" using assms(2) by blast
  then have "notAfter parse r r" by (rule notAfter_refl)
  with s m show ?thesis by auto
qed

text \<open>
  C10. For every list of operator records, the resolution step returns null exactly
  when the list is empty, and otherwise returns a record of the list, whatever the
  \<open>supersedes\<close> links are.
\<close>

theorem resolve_total:
  "(resolveCurrentOperator parse records = None \<longleftrightarrow> records = [])
   \<and> (records \<noteq> [] \<longrightarrow> (\<exists>r\<in>set records. resolveCurrentOperator parse records = Some r))"
proof (cases records)
  case Nil
  then show ?thesis by (simp add: resolveCurrentOperator_def)
next
  case (Cons r0 rest)
  show ?thesis
  proof (cases "unsuperseded parse records")
    case Nil
    with Cons show ?thesis by (simp add: resolveCurrentOperator_def)
  next
    case (Cons u us)
    then have "u \<in> set records" using unsuperseded_subset[of parse records] by auto
    with Cons \<open>records = r0 # rest\<close> show ?thesis by (auto simp add: resolveCurrentOperator_def)
  qed
qed

theorem resolve_total_witness:
  "uriCycle \<noteq> []
   \<and> resolveCurrentOperator exampleDateParse uriCycle \<noteq> None
   \<and> (\<exists>r\<in>set uriCycle. resolveCurrentOperator exampleDateParse uriCycle = Some r)
   \<and> resolveCurrentOperator exampleDateParse [] = None"
  using resolve_total [of exampleDateParse uriCycle] resolve_total [of exampleDateParse "[]"]
  by (simp add: uriCycle_def)

text \<open>
  C3. A record whose reference is the \<open>supersedes\<close> target of another record must not be
  returned while a candidate tip exists. In the repository \<open>backdatedAgent\<close> the only
  candidate tip is the second record, the first one is superseded, and
  \<open>getCurrentOperator\<close> returns the first: the filter compares the \<open>supersedes\<close> targets
  with \<open>createdAt\<close>, not with the references of the records, and so removes nothing.
\<close>

theorem superseded_record_returned:
  "candidateTips [envFirst, envSecond] = [envSecond]
   \<and> env_uri envFirst \<in> supersededSet [envFirst, envSecond]
   \<and> getCurrentOperator exampleDateParse backdatedAgent ''did:plc:agent'' = Inr (Some (env_value envFirst))"
  by (simp add: candidateTips_def supersededSet_def List.map_filter_simps envFirst_def envSecond_def
      opFirst_def opSecond_def getCurrentOperator_def getOperatorRecords_def backdatedAgent_def
      resolveCurrentOperator_def unsuperseded_def supersededBy_def sortBy_def newestFirst_def
      exampleDateParse_def)

text \<open>
  A key of \<open>supersededBy\<close> is the \<open>supersedes\<close> target of some record. So when every
  creation date parses and no target does, the filter keeps every record, and the head
  of the sorted list has the latest date.
\<close>

lemma supersededBy_fold_key:
  "foldl (\<lambda>m record. case supersedes record of
                         None \<Rightarrow> m
                       | Some s \<Rightarrow> if s \<noteq> [] then m(s \<mapsto> createdAt record) else m) m records k \<noteq> None
   \<Longrightarrow> m k \<noteq> None \<or> (\<exists>r\<in>set records. supersedes r = Some k)"
proof (induction records arbitrary: m)
  case Nil
  then show ?case by simp
next
  case (Cons r rs)
  let ?m = "case supersedes r of None \<Rightarrow> m
            | Some s \<Rightarrow> if s \<noteq> [] then m(s \<mapsto> createdAt r) else m"
  from Cons.prems have "?m k \<noteq> None \<or> (\<exists>r\<in>set rs. supersedes r = Some k)"
    using Cons.IH[of ?m] by simp
  moreover have "?m k \<noteq> None \<Longrightarrow> m k \<noteq> None \<or> supersedes r = Some k"
    by (cases "supersedes r") (auto split: if_splits)
  ultimately show ?case by auto
qed

lemma supersededBy_key:
  "supersededBy records k \<noteq> None \<Longrightarrow> \<exists>r\<in>set records. supersedes r = Some k"
  using supersededBy_fold_key[of Map.empty records k] by (simp add: supersededBy_def)

lemma latest_when_unfiltered:
  assumes "records \<noteq> []"
    and a: "\<forall>r\<in>set records. parse (createdAt r) \<noteq> None \<and> supersededBy records (createdAt r) = None"
  shows "\<exists>r\<in>set records. resolveCurrentOperator parse records = Some r
           \<and> (\<forall>q\<in>set records. notAfter parse q r)"
proof -
  from a have "filter (\<lambda>r. supersededBy records (createdAt r) = None) records = records"
    by simp
  then have u: "unsuperseded parse records = sortBy (newestFirst parse) records"
    by (simp add: unsuperseded_def)
  from assms(1) have "set (sortBy (newestFirst parse) records) \<noteq> {}" by (simp add: sortBy_set)
  then obtain r rest where s: "sortBy (newestFirst parse) records = r # rest"
    by (cases "sortBy (newestFirst parse) records") auto
  then have "r \<in> set records" using sortBy_set[of "newestFirst parse" records] by auto
  moreover have "resolveCurrentOperator parse records = Some r"
    using assms(1) u s by (simp add: resolveCurrentOperator_def)
  moreover have "\<forall>q\<in>set records. notAfter parse q r"
    using sorted_head_latest[OF s] a by blast
  ultimately show ?thesis by blast
qed

text \<open>
  C4, as claimed: when the candidate tip set is empty, the resolver surfaces a warning
  that the chain could not be fully resolved. The result of \<open>getCurrentOperator\<close> is a
  record or null and nothing else. For two records that supersede each other it is the
  later record, the very value returned for a chain that resolves to that record:
  nothing in the result tells the unresolved chain from the resolved one.
\<close>

theorem cycle_result_carries_no_warning:
  "candidateTips uriCycleListing = []
   \<and> getCurrentOperator exampleDateParse uriCycleAgent ''did:plc:agent'' = Inr (Some uriCycleNew)
   \<and> candidateTips chainListing = [chainTip]
   \<and> getCurrentOperator exampleDateParse chainAgent ''did:plc:agent'' = Inr (Some uriCycleNew)"
  by (simp add: candidateTips_def supersededSet_def List.map_filter_simps uriCycleListing_def
      chainListing_def chainTip_def uriCycleOld_def uriCycleNew_def opFirst_def
      getCurrentOperator_def getOperatorRecords_def uriCycleAgent_def chainAgent_def
      resolveCurrentOperator_def unsuperseded_def supersededBy_def sortBy_def newestFirst_def
      exampleDateParse_def)

text \<open>
  C4, amended. For every non-empty set of operator records in which the candidate tip
  set is empty, where every \<open>createdAt\<close> parses and no \<open>supersedes\<close> target is itself a
  parseable date, the resolver returns a record with the overall latest \<open>createdAt\<close>
  rather than failing. No warning is surfaced.
\<close>

theorem latest_on_empty_tips:
  assumes "agent agentDid = Inr listed" and "listed \<noteq> []" and "candidateTips listed = []"
    and "\<forall>e\<in>set listed. parse (createdAt (env_value e)) \<noteq> None"
    and "\<forall>e\<in>set listed. case supersedes (env_value e) of None \<Rightarrow> True | Some s \<Rightarrow> parse s = None"
  shows "\<exists>r\<in>set (map env_value listed).
           getCurrentOperator parse agent agentDid = Inr (Some r)
           \<and> (\<forall>q\<in>set (map env_value listed). notAfter parse q r)"
proof -
  let ?records = "map env_value listed"
  have parses: "\<forall>r\<in>set ?records. parse (createdAt r) \<noteq> None" using assms(4) by simp
  have "supersededBy ?records (createdAt r) = None" if "r \<in> set ?records" for r
  proof (rule ccontr)
    assume "supersededBy ?records (createdAt r) \<noteq> None"
    then obtain q where q: "q \<in> set ?records" "supersedes q = Some (createdAt r)"
      using supersededBy_key by blast
    then have "parse (createdAt r) = None" using assms(5) by auto
    with parses that show False by blast
  qed
  with parses have "\<forall>r\<in>set ?records. parse (createdAt r) \<noteq> None
      \<and> supersededBy ?records (createdAt r) = None" by blast
  moreover from assms(2) have "?records \<noteq> []" by simp
  ultimately have "\<exists>r\<in>set ?records. resolveCurrentOperator parse ?records = Some r
      \<and> (\<forall>q\<in>set ?records. notAfter parse q r)"
    by (intro latest_when_unfiltered)
  moreover have "getCurrentOperator parse agent agentDid
      = Inr (resolveCurrentOperator parse ?records)"
    using assms(1) by (simp add: getCurrentOperator_def getOperatorRecords_def)
  ultimately show ?thesis by simp
qed

theorem latest_on_empty_tips_witness:
  "uriCycleAgent ''did:plc:agent'' = Inr uriCycleListing
   \<and> uriCycleListing \<noteq> []
   \<and> candidateTips uriCycleListing = []
   \<and> exampleDateParse (createdAt uriCycleOld) = Some 1767225600000
   \<and> exampleDateParse (createdAt uriCycleNew) = Some 1769904000000
   \<and> supersedes uriCycleOld = Some ''at://did:plc:agent/at.witness.operator/second''
   \<and> supersedes uriCycleNew = Some ''at://did:plc:agent/at.witness.operator/first''
   \<and> exampleDateParse ''at://did:plc:agent/at.witness.operator/second'' = None
   \<and> exampleDateParse ''at://did:plc:agent/at.witness.operator/first'' = None
   \<and> getCurrentOperator exampleDateParse uriCycleAgent ''did:plc:agent'' = Inr (Some uriCycleNew)
   \<and> notAfter exampleDateParse uriCycleOld uriCycleNew"
proof -
  have h1: "uriCycleAgent ''did:plc:agent'' = Inr uriCycleListing"
    by (simp add: uriCycleAgent_def)
  have h2: "uriCycleListing \<noteq> []" by (simp add: uriCycleListing_def)
  have h3: "candidateTips uriCycleListing = []"
    by (simp add: candidateTips_def supersededSet_def List.map_filter_simps uriCycleListing_def
        uriCycleOld_def uriCycleNew_def opFirst_def)
  have p1: "exampleDateParse (createdAt uriCycleOld) = Some 1767225600000"
    and p2: "exampleDateParse (createdAt uriCycleNew) = Some 1769904000000"
    and s1: "supersedes uriCycleOld = Some ''at://did:plc:agent/at.witness.operator/second''"
    and s2: "supersedes uriCycleNew = Some ''at://did:plc:agent/at.witness.operator/first''"
    and n1: "exampleDateParse ''at://did:plc:agent/at.witness.operator/second'' = None"
    and n2: "exampleDateParse ''at://did:plc:agent/at.witness.operator/first'' = None"
    by (simp_all add: uriCycleOld_def uriCycleNew_def opFirst_def exampleDateParse_def)
  have vals: "map env_value uriCycleListing = [uriCycleOld, uriCycleNew]"
    by (simp add: uriCycleListing_def)
  have h4: "\<forall>e\<in>set uriCycleListing. exampleDateParse (createdAt (env_value e)) \<noteq> None"
    using p1 p2 by (simp add: uriCycleListing_def)
  have h5: "\<forall>e\<in>set uriCycleListing.
      case supersedes (env_value e) of None \<Rightarrow> True | Some s \<Rightarrow> exampleDateParse s = None"
    using s1 s2 n1 n2 by (simp add: uriCycleListing_def)
  from latest_on_empty_tips [of uriCycleAgent "''did:plc:agent''" uriCycleListing exampleDateParse,
      OF h1 h2 h3 h4 h5] vals
  obtain r where r: "r \<in> set [uriCycleOld, uriCycleNew]"
    "getCurrentOperator exampleDateParse uriCycleAgent ''did:plc:agent'' = Inr (Some r)"
    "\<forall>q\<in>set [uriCycleOld, uriCycleNew]. notAfter exampleDateParse q r" by auto
  have "\<not> notAfter exampleDateParse uriCycleNew uriCycleOld"
    using p1 p2 by (simp add: notAfter_def)
  with r(1,3) have "r = uriCycleNew" by auto
  with r(2,3) have c: "getCurrentOperator exampleDateParse uriCycleAgent ''did:plc:agent''
      = Inr (Some uriCycleNew)" and d: "notAfter exampleDateParse uriCycleOld uriCycleNew"
    by simp_all
  from h1 h2 h3 p1 p2 s1 s2 n1 n2 c d show ?thesis by blast
qed

section \<open>Discovery: properties\<close>

lemmas eval_defs = discoverAttestations_def Let_def orEmpty_def tagged_def dedupKey_def
  discoverThroughIndexer_def indexerStep_def registryStep_def

lemma social_step_unconditional:
  "(if length ws > 0 then addAttestations d (discoverThroughSocialGraph agent t ws) Social st else st)
   = addAttestations d (discoverThroughSocialGraph agent t ws) Social st"
  by (cases ws) simp_all











text \<open>
  What the counters and the list are in general: the list is as long as the social and
  registry counters together; the indexer counter is the total size of the answers of
  the reachable indexers; with deduplication no key occurs twice in the list and the
  keys are those the social and registry channels returned; without it the list is
  everything these two channels returned.
\<close>

lemma addAttestations_counted:
  "src \<noteq> Indexer \<Longrightarrow> counted st \<Longrightarrow> counted (addAttestations d xs src st)"
proof (induction xs arbitrary: st)
  case Nil
  then show ?case by simp
next
  case (Cons a xs)
  have "counted (st\<lparr>seenUris := insert (dedupKey a) (seenUris st),
                   st_attestations := st_attestations st @ [a],
                   st_sources := increment src (st_sources st)\<rparr>)"
    using Cons.prems by (cases src) (simp_all add: counted_def)
  with Cons show ?case by auto
qed

lemma registry_fold_counted:
  "counted st \<Longrightarrow> counted (foldl (registryStep agent t d) st regs)"
  by (induction regs arbitrary: st) (simp_all add: registryStep_def addAttestations_counted)

lemma indexerStep_counted: "counted st \<Longrightarrow> counted (indexerStep fetch t st ix)"
  by (cases "discoverThroughIndexer fetch ix t None") (simp_all add: indexerStep_def counted_def)

lemma indexer_fold_counted:
  "counted st \<Longrightarrow> counted (foldl (indexerStep fetch t) st ixs)"
  by (induction ixs arbitrary: st) (simp_all add: indexerStep_counted)

lemma counters_match_list:
  "length (attestations (discoverAttestations agent fetch t opts))
   = social (sources (discoverAttestations agent fetch t opts))
     + registry (sources (discoverAttestations agent fetch t opts))"
proof -
  let ?st0 = "\<lparr>st_attestations = [], st_sources = \<lparr>social = 0, registry = 0, indexer = 0\<rparr>,
               st_warnings = [], seenUris = {}\<rparr>"
  have "counted ?st0" by (simp add: counted_def)
  then have "counted (foldl (indexerStep fetch t)
      (foldl (registryStep agent t (deduplicate opts))
         (addAttestations (deduplicate opts) (discoverThroughSocialGraph agent t ws) Social ?st0)
         regs) ixs)" for ws regs ixs
    by (intro indexer_fold_counted registry_fold_counted addAttestations_counted) simp_all
  then show ?thesis
    unfolding discoverAttestations_def Let_def social_step_unconditional
    by (simp add: counted_def)
qed















lemma addAttestations_indexer:
  "src \<noteq> Indexer \<Longrightarrow>
   indexer (st_sources (addAttestations d xs src st)) = indexer (st_sources st)"
proof (induction xs arbitrary: st)
  case Nil
  then show ?case by simp
next
  case (Cons a xs)
  have "indexer (increment src (st_sources st)) = indexer (st_sources st)"
    using Cons.prems by (cases src) simp_all
  with Cons show ?case by auto
qed

lemma registry_fold_indexer:
  "indexer (st_sources (foldl (registryStep agent t d) st regs)) = indexer (st_sources st)"
  by (induction regs arbitrary: st) (simp_all add: registryStep_def addAttestations_indexer)

lemma indexerStep_indexer:
  "indexer (st_sources (indexerStep fetch t st ix))
   = indexer (st_sources st)
     + (case discoverThroughIndexer fetch ix t None of
          Inl error \<Rightarrow> 0 | Inr response \<Rightarrow> length (ix_attestations response))"
  by (cases "discoverThroughIndexer fetch ix t None") (simp_all add: indexerStep_def)

lemma indexer_fold_indexer:
  "indexer (st_sources (foldl (indexerStep fetch t) st ixs))
   = indexer (st_sources st)
     + sum_list (map (\<lambda>ix. case discoverThroughIndexer fetch ix t None of
                              Inl error \<Rightarrow> 0 | Inr response \<Rightarrow> length (ix_attestations response)) ixs)"
  by (induction ixs arbitrary: st) (simp_all add: indexerStep_indexer)

lemma indexer_counter:
  "indexer (sources (discoverAttestations agent fetch t opts))
   = sum_list (map (\<lambda>ix. case discoverThroughIndexer fetch ix t None of
                            Inl error \<Rightarrow> 0 | Inr response \<Rightarrow> length (ix_attestations response))
                (orEmpty (indexers opts)))"
  unfolding discoverAttestations_def Let_def social_step_unconditional
  by (simp add: indexer_fold_indexer registry_fold_indexer addAttestations_indexer)





text \<open>
  C2. A record that two channels contribute is to be credited once with
  \<open>deduplicate = true\<close>, and kept and counted twice with \<open>deduplicate = false\<close>. When
  the second channel is an indexer, the code adds the size of the indexer's answer to
  \<open>sources.indexer\<close> without looking at the records: with deduplication the counters
  add up to 2, and without it the list still has one entry.
\<close>

theorem indexer_copy_counted:
  "subjectDid praise = ix_subjectDid indexedPraise \<and> claim praise = ix_claim indexedPraise
   \<and> att_createdAt praise = ix_createdAt indexedPraise
   \<and> length (attestations (discoverAttestations scenarioAgent indexFetch ''did:plc:subject'' socialAndIndexer)) = 1
   \<and> sources (discoverAttestations scenarioAgent indexFetch ''did:plc:subject'' socialAndIndexer)
       = \<lparr>social = 1, registry = 0, indexer = 1\<rparr>
   \<and> length (attestations (discoverAttestations scenarioAgent indexFetch ''did:plc:subject''
         (socialAndIndexer\<lparr>deduplicate := False\<rparr>))) = 1"
  by (simp add: eval_defs scenarioAgent_def socialAndIndexer_def scenarioAttestations_def
      praiseEnvelope_def praise_def indexedPraise_def indexFetch_def exampleIndexer_def)

text \<open>
  C5. The length of the returned list is to be the sum of the three counters. A record
  reported by an indexer is counted in \<open>sources.indexer\<close> and never added to the list:
  with one indexer and no witness the list is empty and the counter is 1.
\<close>

theorem indexer_count_without_record:
  "attestations (discoverAttestations scenarioAgent indexFetch ''did:plc:subject'' indexerOnly) = []
   \<and> sources (discoverAttestations scenarioAgent indexFetch ''did:plc:subject'' indexerOnly)
       = \<lparr>social = 0, registry = 0, indexer = 1\<rparr>"
  by (simp add: eval_defs indexerOnly_def indexFetch_def exampleIndexer_def)

end
